theory Spec2Isabelle
  imports Main "HOL-Library.Word"
begin

section \<open>The Lenovo Yoga Slim 7x embedded-controller driver\<close>

text \<open>
  A shallow embedding of \<^verbatim>\<open>drivers/platform/arm64/lenovo-yoga-slim7x.c\<close>.
  The driver computes nothing: all it does is call the kernel (the SMBus transport, the
  input layer, the logger, the mutex of its state structure) in some order that depends
  on what the calls return. So the model is a trace: every kernel call the driver makes
  appends one event to a list, and the kernel's answers come from an environment that may
  look at everything that has happened so far.
\<close>

subsection \<open>Machine types\<close>

text \<open>C's \<^verbatim>\<open>int\<close> (and \<^verbatim>\<open>s32\<close>) is a 32-bit two's complement word, read with
  \<^const>\<open>sint\<close>; a register address and a register value are bytes.\<close>

type_synonym u8 = "8 word"
type_synonym s32 = "32 word"

subsection \<open>The constants of the file\<close>

text \<open>The registers reachable over SMBus.\<close>

definition EC_IRQ_REASON_REG :: u8 where "EC_IRQ_REASON_REG = 0x05"
definition EC_SUSPEND_RESUME_REG :: u8 where "EC_SUSPEND_RESUME_REG = 0x23"
definition EC_IRQ_ENABLE_REG :: u8 where "EC_IRQ_ENABLE_REG = 0x35"
definition EC_BACKLIGHT_STATUS_REG :: u8 where "EC_BACKLIGHT_STATUS_REG = 0x83"
definition EC_MIC_MUTE_LED_REG :: u8 where "EC_MIC_MUTE_LED_REG = 0x84"
definition EC_AC_STATUS_REG :: u8 where "EC_AC_STATUS_REG = 0x90"

text \<open>The values written to \<^const>\<open>EC_SUSPEND_RESUME_REG\<close>.\<close>

definition EC_NOTIFY_SUSPEND_ENTER :: u8 where "EC_NOTIFY_SUSPEND_ENTER = 0x01"
definition EC_NOTIFY_SUSPEND_EXIT :: u8 where "EC_NOTIFY_SUSPEND_EXIT = 0x00"
definition EC_NOTIFY_SCREEN_OFF :: u8 where "EC_NOTIFY_SCREEN_OFF = 0x03"
definition EC_NOTIFY_SCREEN_ON :: u8 where "EC_NOTIFY_SCREEN_ON = 0x04"

text \<open>The values of \<^const>\<open>EC_IRQ_REASON_REG\<close>. They are compared with the
  \<^verbatim>\<open>int\<close> the read returns, so they are of that type.\<close>

definition EC_IRQ_MICMUTE_BUTTON :: s32 where "EC_IRQ_MICMUTE_BUTTON = 0x04"
definition EC_IRQ_FAN1_STATUS_CHANGE :: s32 where "EC_IRQ_FAN1_STATUS_CHANGE = 0x30"
definition EC_IRQ_FAN2_STATUS_CHANGE :: s32 where "EC_IRQ_FAN2_STATUS_CHANGE = 0x31"
definition EC_IRQ_FAN1_SPEED_CHANGE :: s32 where "EC_IRQ_FAN1_SPEED_CHANGE = 0x32"
definition EC_IRQ_FAN2_SPEED_CHANGE :: s32 where "EC_IRQ_FAN2_SPEED_CHANGE = 0x33"
definition EC_IRQ_COMPLETED_LUT_UPDATE :: s32 where "EC_IRQ_COMPLETED_LUT_UPDATE = 0x34"
definition EC_IRQ_COMPLETED_FAN_PROFILE_SWITCH :: s32 where
  "EC_IRQ_COMPLETED_FAN_PROFILE_SWITCH = 0x35"
definition EC_IRQ_THERMISTOR_1_TEMP_THRESHOLD_CROSS :: s32 where
  "EC_IRQ_THERMISTOR_1_TEMP_THRESHOLD_CROSS = 0x36"
definition EC_IRQ_THERMISTOR_2_TEMP_THRESHOLD_CROSS :: s32 where
  "EC_IRQ_THERMISTOR_2_TEMP_THRESHOLD_CROSS = 0x37"
definition EC_IRQ_THERMISTOR_3_TEMP_THRESHOLD_CROSS :: s32 where
  "EC_IRQ_THERMISTOR_3_TEMP_THRESHOLD_CROSS = 0x38"
definition EC_IRQ_THERMISTOR_4_TEMP_THRESHOLD_CROSS :: s32 where
  "EC_IRQ_THERMISTOR_4_TEMP_THRESHOLD_CROSS = 0x39"
definition EC_IRQ_THERMISTOR_5_TEMP_THRESHOLD_CROSS :: s32 where
  "EC_IRQ_THERMISTOR_5_TEMP_THRESHOLD_CROSS = 0x3a"
definition EC_IRQ_THERMISTOR_6_TEMP_THRESHOLD_CROSS :: s32 where
  "EC_IRQ_THERMISTOR_6_TEMP_THRESHOLD_CROSS = 0x3b"
definition EC_IRQ_THERMISTOR_7_TEMP_THRESHOLD_CROSS :: s32 where
  "EC_IRQ_THERMISTOR_7_TEMP_THRESHOLD_CROSS = 0x3c"
definition EC_IRQ_RECOVERED_FROM_RESET :: s32 where "EC_IRQ_RECOVERED_FROM_RESET = 0x3d"
definition EC_IRQ_LENOVO_SUPPORT_KEY :: s32 where "EC_IRQ_LENOVO_SUPPORT_KEY = 0x90"
definition EC_IRQ_FN_Q :: s32 where "EC_IRQ_FN_Q = 0x91"
definition EC_IRQ_FN_M :: s32 where "EC_IRQ_FN_M = 0x92"
definition EC_IRQ_FN_SPACE :: s32 where "EC_IRQ_FN_SPACE = 0x93"
definition EC_IRQ_FN_R :: s32 where "EC_IRQ_FN_R = 0x94"
definition EC_IRQ_FNLOCK_ON :: s32 where "EC_IRQ_FNLOCK_ON = 0x95"
definition EC_IRQ_FNLOCK_OFF :: s32 where "EC_IRQ_FNLOCK_OFF = 0x96"
definition EC_IRQ_FN_N :: s32 where "EC_IRQ_FN_N = 0x97"
definition EC_IRQ_AI :: s32 where "EC_IRQ_AI = 0x9a"
definition EC_IRQ_NPU :: s32 where "EC_IRQ_NPU = 0x9b"

text \<open>The reason codes the file names beside the micmute button: the fan, thermal,
  reset and function-key notifications.\<close>

definition unmapped_reasons :: "s32 list" where
  "unmapped_reasons =
    [EC_IRQ_FAN1_STATUS_CHANGE, EC_IRQ_FAN2_STATUS_CHANGE, EC_IRQ_FAN1_SPEED_CHANGE,
     EC_IRQ_FAN2_SPEED_CHANGE, EC_IRQ_COMPLETED_LUT_UPDATE,
     EC_IRQ_COMPLETED_FAN_PROFILE_SWITCH, EC_IRQ_THERMISTOR_1_TEMP_THRESHOLD_CROSS,
     EC_IRQ_THERMISTOR_2_TEMP_THRESHOLD_CROSS, EC_IRQ_THERMISTOR_3_TEMP_THRESHOLD_CROSS,
     EC_IRQ_THERMISTOR_4_TEMP_THRESHOLD_CROSS, EC_IRQ_THERMISTOR_5_TEMP_THRESHOLD_CROSS,
     EC_IRQ_THERMISTOR_6_TEMP_THRESHOLD_CROSS, EC_IRQ_THERMISTOR_7_TEMP_THRESHOLD_CROSS,
     EC_IRQ_RECOVERED_FROM_RESET, EC_IRQ_LENOVO_SUPPORT_KEY, EC_IRQ_FN_Q, EC_IRQ_FN_M,
     EC_IRQ_FN_SPACE, EC_IRQ_FN_R, EC_IRQ_FNLOCK_ON, EC_IRQ_FNLOCK_OFF, EC_IRQ_FN_N,
     EC_IRQ_AI, EC_IRQ_NPU]"

subsection \<open>Names the file takes from kernel headers\<close>

text \<open>\<^verbatim>\<open>irqreturn_t\<close> is the kernel's enumeration of what a handler answers.\<close>

datatype irqreturn = IRQ_NONE | IRQ_HANDLED | IRQ_WAKE_THREAD

text \<open>The file uses \<^verbatim>\<open>KEY_MICMUTE\<close>, \<^verbatim>\<open>EV_KEY\<close> and \<^verbatim>\<open>ENOMEM\<close> by name only;
  their numbers are those of the kernel's \<^verbatim>\<open>input-event-codes.h\<close> and
  \<^verbatim>\<open>errno-base.h\<close>. No statement below depends on the numbers.\<close>

definition KEY_MICMUTE :: nat where "KEY_MICMUTE = 248"
definition EV_KEY :: nat where "EV_KEY = 1"
definition ENOMEM :: s32 where "ENOMEM = 12"

subsection \<open>Events and the environment\<close>

text \<open>One event for each call that leaves the driver. A bus event is the attempt: it is
  in the trace whether the transfer then succeeds or fails. A log event carries the format
  string of the call without its final line feed, and the value printed.\<close>

datatype event =
    MutexInit
  | MutexLock
  | MutexUnlock
  | SmbusRead u8
  | SmbusWrite u8 u8
  | InputReportKey nat s32
  | InputSync
  | DevErr string s32
  | DevInfo string s32
  | DevErrProbe s32 string
  | DevmKzalloc
  | DevmInputAllocate
  | InputSetCapability nat nat
  | InputRegisterDevice
  | DevmRequestThreadedIrq

type_synonym trace = "event list"

text \<open>What the kernel answers. Each answer may depend on the whole history, so a bus
  that fails on its second transfer, or only after some write, is an environment too.
  \<^verbatim>\<open>i2c_smbus_read_byte_data\<close> returns the byte read or a negative errno,
  \<^verbatim>\<open>i2c_smbus_write_byte_data\<close> zero or a negative errno; the two allocations
  return a pointer, of which the driver only tests whether it is null.\<close>

record env =
  bus_read :: "trace \<Rightarrow> u8 \<Rightarrow> s32"
  bus_write :: "trace \<Rightarrow> u8 \<Rightarrow> u8 \<Rightarrow> s32"
  kzalloc_ok :: "trace \<Rightarrow> bool"
  input_allocate_ok :: "trace \<Rightarrow> bool"
  input_register_ret :: "trace \<Rightarrow> s32"
  request_irq_ret :: "trace \<Rightarrow> s32"

subsection \<open>The kernel calls, as trace transformers\<close>

definition mutex_init :: "trace \<Rightarrow> trace" where
  "mutex_init tr = tr @ [MutexInit]"

definition mutex_lock :: "trace \<Rightarrow> trace" where
  "mutex_lock tr = tr @ [MutexLock]"

definition mutex_unlock :: "trace \<Rightarrow> trace" where
  "mutex_unlock tr = tr @ [MutexUnlock]"

definition i2c_smbus_read_byte_data :: "env \<Rightarrow> u8 \<Rightarrow> trace \<Rightarrow> s32 \<times> trace" where
  "i2c_smbus_read_byte_data E command tr = (bus_read E tr command, tr @ [SmbusRead command])"

definition i2c_smbus_write_byte_data :: "env \<Rightarrow> u8 \<Rightarrow> u8 \<Rightarrow> trace \<Rightarrow> s32 \<times> trace" where
  "i2c_smbus_write_byte_data E command v tr =
     (bus_write E tr command v, tr @ [SmbusWrite command v])"

definition input_report_key :: "nat \<Rightarrow> s32 \<Rightarrow> trace \<Rightarrow> trace" where
  "input_report_key code v tr = tr @ [InputReportKey code v]"

definition input_sync :: "trace \<Rightarrow> trace" where
  "input_sync tr = tr @ [InputSync]"

definition dev_err :: "string \<Rightarrow> s32 \<Rightarrow> trace \<Rightarrow> trace" where
  "dev_err fmt v tr = tr @ [DevErr fmt v]"

definition dev_info :: "string \<Rightarrow> s32 \<Rightarrow> trace \<Rightarrow> trace" where
  "dev_info fmt v tr = tr @ [DevInfo fmt v]"

text \<open>\<^verbatim>\<open>dev_err_probe\<close> logs and hands its error code back.\<close>

definition dev_err_probe :: "s32 \<Rightarrow> string \<Rightarrow> trace \<Rightarrow> s32 \<times> trace" where
  "dev_err_probe err fmt tr = (err, tr @ [DevErrProbe err fmt])"

definition devm_kzalloc :: "env \<Rightarrow> trace \<Rightarrow> bool \<times> trace" where
  "devm_kzalloc E tr = (kzalloc_ok E tr, tr @ [DevmKzalloc])"

definition devm_input_allocate_device :: "env \<Rightarrow> trace \<Rightarrow> bool \<times> trace" where
  "devm_input_allocate_device E tr = (input_allocate_ok E tr, tr @ [DevmInputAllocate])"

definition input_set_capability :: "nat \<Rightarrow> nat \<Rightarrow> trace \<Rightarrow> trace" where
  "input_set_capability ty code tr = tr @ [InputSetCapability ty code]"

definition input_register_device :: "env \<Rightarrow> trace \<Rightarrow> s32 \<times> trace" where
  "input_register_device E tr = (input_register_ret E tr, tr @ [InputRegisterDevice])"

definition devm_request_threaded_irq :: "env \<Rightarrow> trace \<Rightarrow> s32 \<times> trace" where
  "devm_request_threaded_irq E tr = (request_irq_ret E tr, tr @ [DevmRequestThreadedIrq])"

subsection \<open>The driver\<close>

text \<open>The interrupt handler. \<^verbatim>\<open>guard(mutex)(&ec->lock)\<close> takes the lock and releases it
  when the function's scope is left, so the unlock ends every path.\<close>

definition yoga_slim7x_ec_irq :: "env \<Rightarrow> trace \<Rightarrow> irqreturn \<times> trace" where
  "yoga_slim7x_ec_irq E tr0 =
    (let tr1 = mutex_lock tr0;
         (val, tr2) = i2c_smbus_read_byte_data E EC_IRQ_REASON_REG tr1
     in if sint val < 0 then
          (IRQ_HANDLED,
           mutex_unlock (dev_err ''Failed to get EC IRQ reason: %d'' val tr2))
        else if val = EC_IRQ_MICMUTE_BUTTON then
          (IRQ_HANDLED,
           mutex_unlock
             (input_sync (input_report_key KEY_MICMUTE 0
               (input_sync (input_report_key KEY_MICMUTE 1 tr2)))))
        else
          (IRQ_HANDLED,
           mutex_unlock (dev_info ''Unhandled EC IRQ reason: %d'' val tr2)))"

text \<open>Probe. The assignments to \<^verbatim>\<open>ec->client\<close> and to the input device's name fields
  call nothing and leave no event.\<close>

definition yoga_slim7x_ec_probe :: "env \<Rightarrow> trace \<Rightarrow> s32 \<times> trace" where
  "yoga_slim7x_ec_probe E tr0 =
    (let (ec, tr1) = devm_kzalloc E tr0 in
     if \<not> ec then (- ENOMEM, tr1) else
     let tr2 = mutex_init tr1;
         (idev, tr3) = devm_input_allocate_device E tr2 in
     if \<not> idev then (- ENOMEM, tr3) else
     let tr4 = input_set_capability EV_KEY KEY_MICMUTE tr3;
         (ret, tr5) = input_register_device E tr4 in
     if sint ret < 0 then dev_err_probe ret ''Failed to register input device'' tr5 else
     let (ret, tr6) = devm_request_threaded_irq E tr5 in
     if sint ret < 0 then dev_err_probe ret ''Unable to request irq'' tr6 else
     let (ret, tr7) = i2c_smbus_write_byte_data E EC_IRQ_ENABLE_REG 0x01 tr6 in
     if sint ret < 0 then dev_err_probe ret ''Failed to enable interrupts'' tr7 else
     (0, tr7))"

text \<open>Remove returns nothing: its result is the trace alone.\<close>

definition yoga_slim7x_ec_remove :: "env \<Rightarrow> trace \<Rightarrow> trace" where
  "yoga_slim7x_ec_remove E tr0 =
    (let (ret, tr1) = i2c_smbus_write_byte_data E EC_IRQ_ENABLE_REG 0x00 tr0 in
     if sint ret < 0 then dev_err ''Failed to disable interrupts: %d'' ret tr1 else tr1)"

definition yoga_slim7x_ec_suspend :: "env \<Rightarrow> trace \<Rightarrow> s32 \<times> trace" where
  "yoga_slim7x_ec_suspend E tr0 =
    (let (ret, tr1) =
           i2c_smbus_write_byte_data E EC_SUSPEND_RESUME_REG EC_NOTIFY_SCREEN_OFF tr0 in
     if ret \<noteq> 0 then (ret, tr1) else
     let (ret, tr2) =
           i2c_smbus_write_byte_data E EC_SUSPEND_RESUME_REG EC_NOTIFY_SUSPEND_ENTER tr1 in
     if ret \<noteq> 0 then (ret, tr2) else
     (0, tr2))"

definition yoga_slim7x_ec_resume :: "env \<Rightarrow> trace \<Rightarrow> s32 \<times> trace" where
  "yoga_slim7x_ec_resume E tr0 =
    (let (ret, tr1) =
           i2c_smbus_write_byte_data E EC_SUSPEND_RESUME_REG EC_NOTIFY_SUSPEND_EXIT tr0 in
     if ret \<noteq> 0 then (ret, tr1) else
     let (ret, tr2) =
           i2c_smbus_write_byte_data E EC_SUSPEND_RESUME_REG EC_NOTIFY_SCREEN_ON tr1 in
     if ret \<noteq> 0 then (ret, tr2) else
     (0, tr2))"

subsection \<open>Reading a trace\<close>

text \<open>What one call of a driver function added to the trace it started from.\<close>

definition emitted :: "trace \<Rightarrow> trace \<Rightarrow> trace" where
  "emitted tr0 tr = drop (length tr0) tr"

fun is_input :: "event \<Rightarrow> bool" where
  "is_input (InputReportKey _ _) = True"
| "is_input InputSync = True"
| "is_input _ = False"

fun is_bus :: "event \<Rightarrow> bool" where
  "is_bus (SmbusRead _) = True"
| "is_bus (SmbusWrite _ _) = True"
| "is_bus _ = False"

definition input_events :: "trace \<Rightarrow> trace" where
  "input_events tr = filter is_input tr"

definition bus_events :: "trace \<Rightarrow> trace" where
  "bus_events tr = filter is_bus tr"

text \<open>The value the reason-register read of a dispatch returns, when the dispatch
  starts after \<open>tr\<close>: the read is the handler's first call after taking the lock.\<close>

definition irq_reason :: "env \<Rightarrow> trace \<Rightarrow> s32" where
  "irq_reason E tr = bus_read E (tr @ [MutexLock]) EC_IRQ_REASON_REG"

text \<open>Whether every bus access of a trace is made with the mutex held; \<open>held\<close> says
  whether it is held where the trace starts.\<close>

fun locked_accesses :: "bool \<Rightarrow> trace \<Rightarrow> bool" where
  "locked_accesses held [] = True"
| "locked_accesses held (MutexLock # es) = locked_accesses True es"
| "locked_accesses held (MutexUnlock # es) = locked_accesses False es"
| "locked_accesses held (SmbusRead r # es) = (held \<and> locked_accesses held es)"
| "locked_accesses held (SmbusWrite r v # es) = (held \<and> locked_accesses held es)"
| "locked_accesses held (e # es) = locked_accesses held es"

subsection \<open>Concrete environments\<close>

text \<open>An environment whose answers do not change with the history: every read returns
  \<open>rd\<close>, a write of the byte \<open>v\<close> returns \<open>wr v\<close>, and the four calls of probe
  answer as given.\<close>

definition env_const :: "s32 \<Rightarrow> (u8 \<Rightarrow> s32) \<Rightarrow> bool \<Rightarrow> bool \<Rightarrow> s32 \<Rightarrow> s32 \<Rightarrow> env" where
  "env_const rd wr kz ia ir rq =
    \<lparr>bus_read = (\<lambda>_ _. rd), bus_write = (\<lambda>_ _ v. wr v), kzalloc_ok = (\<lambda>_. kz),
     input_allocate_ok = (\<lambda>_. ia), input_register_ret = (\<lambda>_. ir),
     request_irq_ret = (\<lambda>_. rq)\<rparr>"

text \<open>Every read of the reason register returns \<open>v\<close> and everything else succeeds.\<close>

definition env_reason :: "s32 \<Rightarrow> env" where
  "env_reason v = env_const v (\<lambda>_. 0) True True 0 0"

text \<open>Writing the byte \<open>b\<close> fails with \<open>-EIO\<close> (errno 5); everything else succeeds.\<close>

definition env_write_fails :: "u8 \<Rightarrow> env" where
  "env_write_fails b = env_const 0 (\<lambda>v. if v = b then - 5 else 0) True True 0 0"

text \<open>Registering the input device returns \<open>ir\<close>, requesting the handler returns
  \<open>rq\<close>; the allocations and the bus succeed.\<close>

definition env_probe :: "s32 \<Rightarrow> s32 \<Rightarrow> env" where
  "env_probe ir rq = env_const 0 (\<lambda>_. 0) True True ir rq"

section \<open>The interrupt handler\<close>

lemmas call_defs =
  mutex_init_def mutex_lock_def mutex_unlock_def i2c_smbus_read_byte_data_def
  i2c_smbus_write_byte_data_def input_report_key_def input_sync_def dev_err_def
  dev_info_def dev_err_probe_def devm_kzalloc_def devm_input_allocate_device_def
  input_set_capability_def input_register_device_def devm_request_threaded_irq_def

text \<open>
  C1. When the read of the reason register succeeds and returns the micmute code 0x04,
  the handler emits key press, sync, key release, sync for \<^const>\<open>KEY_MICMUTE\<close>, in
  that order, and nothing else: beside them the call leaves only the lock, the one read
  and the unlock.
\<close>

theorem irq_micmute_events:
  assumes "irq_reason E tr = 0x04"
  shows "yoga_slim7x_ec_irq E tr =
           (IRQ_HANDLED,
            tr @ [MutexLock, SmbusRead EC_IRQ_REASON_REG,
                  InputReportKey KEY_MICMUTE 1, InputSync,
                  InputReportKey KEY_MICMUTE 0, InputSync, MutexUnlock])
         \<and> input_events (emitted tr (snd (yoga_slim7x_ec_irq E tr))) =
           [InputReportKey KEY_MICMUTE 1, InputSync, InputReportKey KEY_MICMUTE 0, InputSync]"
  using assms
  by (simp add: yoga_slim7x_ec_irq_def call_defs irq_reason_def emitted_def
      input_events_def EC_IRQ_MICMUTE_BUTTON_def)

theorem irq_micmute_events_witness:
  "irq_reason (env_reason 0x04) [] = 0x04
   \<and> yoga_slim7x_ec_irq (env_reason 0x04) [] =
       (IRQ_HANDLED,
        [MutexLock, SmbusRead 0x05, InputReportKey KEY_MICMUTE 1, InputSync,
         InputReportKey KEY_MICMUTE 0, InputSync, MutexUnlock])"
proof -
  have h: "irq_reason (env_reason 0x04) [] = 0x04"
    by (simp add: irq_reason_def env_reason_def env_const_def)
  from irq_micmute_events [OF h] show ?thesis
    using h by (simp add: EC_IRQ_REASON_REG_def)
qed

text \<open>
  C5. When the read of the reason register fails (a negative return), the handler emits
  no input event, logs the failure with \<^verbatim>\<open>dev_err\<close> together with the error code, and
  still answers \<^const>\<open>IRQ_HANDLED\<close>.
\<close>

theorem irq_read_failure:
  assumes "sint (irq_reason E tr) < 0"
  shows "yoga_slim7x_ec_irq E tr =
           (IRQ_HANDLED,
            tr @ [MutexLock, SmbusRead EC_IRQ_REASON_REG,
                  DevErr ''Failed to get EC IRQ reason: %d'' (irq_reason E tr), MutexUnlock])
         \<and> input_events (emitted tr (snd (yoga_slim7x_ec_irq E tr))) = []"
  using assms
  by (simp add: yoga_slim7x_ec_irq_def call_defs irq_reason_def emitted_def input_events_def)

theorem irq_read_failure_witness:
  "sint (irq_reason (env_reason (- 5)) []) < 0
   \<and> yoga_slim7x_ec_irq (env_reason (- 5)) [] =
       (IRQ_HANDLED,
        [MutexLock, SmbusRead 0x05, DevErr ''Failed to get EC IRQ reason: %d'' (- 5),
         MutexUnlock])
   \<and> input_events (emitted [] (snd (yoga_slim7x_ec_irq (env_reason (- 5)) []))) = []"
proof -
  have r: "irq_reason (env_reason (- 5)) [] = - 5"
    by (simp add: irq_reason_def env_reason_def env_const_def)
  have h: "sint (irq_reason (env_reason (- 5)) []) < 0"
    by (simp add: r)
  from irq_read_failure [OF h] show ?thesis
    using h by (simp add: r EC_IRQ_REASON_REG_def emitted_def input_events_def)
qed

text \<open>
  C6. When the read succeeds with any value other than the micmute code 0x04, the
  handler emits no input event: it logs the value with \<^verbatim>\<open>dev_info\<close> and does nothing
  else. The fan, thermal, reset and function-key codes the file names are such values.
\<close>

theorem irq_unmapped_reason:
  assumes "0 \<le> sint (irq_reason E tr)" and "irq_reason E tr \<noteq> 0x04"
  shows "yoga_slim7x_ec_irq E tr =
           (IRQ_HANDLED,
            tr @ [MutexLock, SmbusRead EC_IRQ_REASON_REG,
                  DevInfo ''Unhandled EC IRQ reason: %d'' (irq_reason E tr), MutexUnlock])
         \<and> input_events (emitted tr (snd (yoga_slim7x_ec_irq E tr))) = []"
  using assms
  by (simp add: yoga_slim7x_ec_irq_def call_defs irq_reason_def emitted_def input_events_def
      EC_IRQ_MICMUTE_BUTTON_def)

lemma unmapped_reasons_succeed:
  "list_all (\<lambda>v. 0 \<le> sint v \<and> v \<noteq> 0x04) unmapped_reasons"
  by (simp add: unmapped_reasons_def EC_IRQ_FAN1_STATUS_CHANGE_def
      EC_IRQ_FAN2_STATUS_CHANGE_def EC_IRQ_FAN1_SPEED_CHANGE_def EC_IRQ_FAN2_SPEED_CHANGE_def
      EC_IRQ_COMPLETED_LUT_UPDATE_def EC_IRQ_COMPLETED_FAN_PROFILE_SWITCH_def
      EC_IRQ_THERMISTOR_1_TEMP_THRESHOLD_CROSS_def EC_IRQ_THERMISTOR_2_TEMP_THRESHOLD_CROSS_def
      EC_IRQ_THERMISTOR_3_TEMP_THRESHOLD_CROSS_def EC_IRQ_THERMISTOR_4_TEMP_THRESHOLD_CROSS_def
      EC_IRQ_THERMISTOR_5_TEMP_THRESHOLD_CROSS_def EC_IRQ_THERMISTOR_6_TEMP_THRESHOLD_CROSS_def
      EC_IRQ_THERMISTOR_7_TEMP_THRESHOLD_CROSS_def EC_IRQ_RECOVERED_FROM_RESET_def
      EC_IRQ_LENOVO_SUPPORT_KEY_def EC_IRQ_FN_Q_def EC_IRQ_FN_M_def EC_IRQ_FN_SPACE_def
      EC_IRQ_FN_R_def EC_IRQ_FNLOCK_ON_def EC_IRQ_FNLOCK_OFF_def EC_IRQ_FN_N_def
      EC_IRQ_AI_def EC_IRQ_NPU_def)

theorem irq_unmapped_reason_witness:
  "0 \<le> sint (irq_reason (env_reason EC_IRQ_THERMISTOR_1_TEMP_THRESHOLD_CROSS) [])
   \<and> irq_reason (env_reason EC_IRQ_THERMISTOR_1_TEMP_THRESHOLD_CROSS) [] \<noteq> 0x04
   \<and> yoga_slim7x_ec_irq (env_reason EC_IRQ_THERMISTOR_1_TEMP_THRESHOLD_CROSS) [] =
       (IRQ_HANDLED,
        [MutexLock, SmbusRead 0x05, DevInfo ''Unhandled EC IRQ reason: %d'' 0x36,
         MutexUnlock])
   \<and> input_events
        (emitted [] (snd (yoga_slim7x_ec_irq
           (env_reason EC_IRQ_THERMISTOR_1_TEMP_THRESHOLD_CROSS) []))) = []"
proof -
  have r: "irq_reason (env_reason EC_IRQ_THERMISTOR_1_TEMP_THRESHOLD_CROSS) [] = 0x36"
    by (simp add: irq_reason_def env_reason_def env_const_def
        EC_IRQ_THERMISTOR_1_TEMP_THRESHOLD_CROSS_def)
  have h1: "0 \<le> sint (irq_reason (env_reason EC_IRQ_THERMISTOR_1_TEMP_THRESHOLD_CROSS) [])"
    by (simp add: r)
  have h2: "irq_reason (env_reason EC_IRQ_THERMISTOR_1_TEMP_THRESHOLD_CROSS) [] \<noteq> 0x04"
    by (simp add: r)
  from irq_unmapped_reason [OF h1 h2] show ?thesis
    using h1 h2 by (simp add: r EC_IRQ_REASON_REG_def emitted_def input_events_def)
qed

text \<open>
  C10. Whatever the read of the reason register returns (an error, the micmute code or
  any other value), the handler answers \<^const>\<open>IRQ_HANDLED\<close>, and its bus traffic is
  exactly one read, of the reason register, and no write.
\<close>

theorem irq_always_handled:
  "fst (yoga_slim7x_ec_irq E tr) = IRQ_HANDLED
   \<and> bus_events (emitted tr (snd (yoga_slim7x_ec_irq E tr))) = [SmbusRead EC_IRQ_REASON_REG]"
  by (simp add: yoga_slim7x_ec_irq_def call_defs emitted_def bus_events_def Let_def)

section \<open>Suspend and resume\<close>

text \<open>
  C3. Suspend writes ScreenOff (0x03) to the suspend/resume register 0x23 first, and
  SuspendEnter (0x01) only after it: what a call adds to the trace is the ScreenOff write
  alone or the ScreenOff write followed by the SuspendEnter write. If the ScreenOff write
  fails, suspend returns that error and has made no other write, neither SuspendEnter nor
  a compensating one. If both writes succeed, suspend returns 0. (Here \<open>r1\<close> and
  \<open>r2\<close> name what the two writes return.)
\<close>

theorem suspend_sequence:
  assumes "i2c_smbus_write_byte_data E EC_SUSPEND_RESUME_REG EC_NOTIFY_SCREEN_OFF tr = (r1, tr1)"
    and "i2c_smbus_write_byte_data E EC_SUSPEND_RESUME_REG EC_NOTIFY_SUSPEND_ENTER tr1 = (r2, tr2)"
  shows "(snd (yoga_slim7x_ec_suspend E tr) = tr @ [SmbusWrite 0x23 0x03]
          \<or> snd (yoga_slim7x_ec_suspend E tr) =
              tr @ [SmbusWrite 0x23 0x03, SmbusWrite 0x23 0x01])
       \<and> (sint r1 < 0 \<longrightarrow>
            yoga_slim7x_ec_suspend E tr = (r1, tr @ [SmbusWrite 0x23 0x03]))
       \<and> (r1 = 0 \<and> r2 = 0 \<longrightarrow>
            yoga_slim7x_ec_suspend E tr =
              (0, tr @ [SmbusWrite 0x23 0x03, SmbusWrite 0x23 0x01]))"
proof -
  have t1: "tr1 = tr @ [SmbusWrite 0x23 0x03]"
    using assms(1)
    by (auto simp: i2c_smbus_write_byte_data_def EC_SUSPEND_RESUME_REG_def
        EC_NOTIFY_SCREEN_OFF_def)
  have t2: "tr2 = tr1 @ [SmbusWrite 0x23 0x01]"
    using assms(2)
    by (auto simp: i2c_smbus_write_byte_data_def EC_SUSPEND_RESUME_REG_def
        EC_NOTIFY_SUSPEND_ENTER_def)
  have run: "yoga_slim7x_ec_suspend E tr = (if r1 \<noteq> 0 then (r1, tr1) else (r2, tr2))"
    using assms by (simp add: yoga_slim7x_ec_suspend_def)
  have neg: "sint r1 < 0 \<Longrightarrow> r1 \<noteq> 0"
    by auto
  show ?thesis
    using neg by (simp add: run t1 t2)
qed

theorem suspend_sequence_witness:
  "yoga_slim7x_ec_suspend (env_write_fails 0x03) [] = (- 5, [SmbusWrite 0x23 0x03])
   \<and> yoga_slim7x_ec_suspend (env_reason 0) [] =
       (0, [SmbusWrite 0x23 0x03, SmbusWrite 0x23 0x01])"
proof -
  have f1: "i2c_smbus_write_byte_data (env_write_fails 0x03) EC_SUSPEND_RESUME_REG
              EC_NOTIFY_SCREEN_OFF [] = (- 5, [SmbusWrite 0x23 0x03])"
    by (simp add: i2c_smbus_write_byte_data_def env_write_fails_def env_const_def
        EC_SUSPEND_RESUME_REG_def EC_NOTIFY_SCREEN_OFF_def)
  have f2: "i2c_smbus_write_byte_data (env_write_fails 0x03) EC_SUSPEND_RESUME_REG
              EC_NOTIFY_SUSPEND_ENTER [SmbusWrite 0x23 0x03] =
              (0, [SmbusWrite 0x23 0x03, SmbusWrite 0x23 0x01])"
    by (simp add: i2c_smbus_write_byte_data_def env_write_fails_def env_const_def
        EC_SUSPEND_RESUME_REG_def EC_NOTIFY_SUSPEND_ENTER_def)
  have s1: "i2c_smbus_write_byte_data (env_reason 0) EC_SUSPEND_RESUME_REG
              EC_NOTIFY_SCREEN_OFF [] = (0, [SmbusWrite 0x23 0x03])"
    by (simp add: i2c_smbus_write_byte_data_def env_reason_def env_const_def
        EC_SUSPEND_RESUME_REG_def EC_NOTIFY_SCREEN_OFF_def)
  have s2: "i2c_smbus_write_byte_data (env_reason 0) EC_SUSPEND_RESUME_REG
              EC_NOTIFY_SUSPEND_ENTER [SmbusWrite 0x23 0x03] =
              (0, [SmbusWrite 0x23 0x03, SmbusWrite 0x23 0x01])"
    by (simp add: i2c_smbus_write_byte_data_def env_reason_def env_const_def
        EC_SUSPEND_RESUME_REG_def EC_NOTIFY_SUSPEND_ENTER_def)
  from suspend_sequence [OF f1 f2] suspend_sequence [OF s1 s2] show ?thesis
    by simp
qed

text \<open>
  C4. Resume writes SuspendExit (0x00) to the suspend/resume register 0x23 first, and
  ScreenOn (0x04) only after it: what a call adds to the trace is the SuspendExit write
  alone or the SuspendExit write followed by the ScreenOn write. If the SuspendExit write
  fails, resume returns that error and the ScreenOn write is not made. If both writes
  succeed, resume returns 0.
\<close>

theorem resume_sequence:
  assumes "i2c_smbus_write_byte_data E EC_SUSPEND_RESUME_REG EC_NOTIFY_SUSPEND_EXIT tr = (r1, tr1)"
    and "i2c_smbus_write_byte_data E EC_SUSPEND_RESUME_REG EC_NOTIFY_SCREEN_ON tr1 = (r2, tr2)"
  shows "(snd (yoga_slim7x_ec_resume E tr) = tr @ [SmbusWrite 0x23 0x00]
          \<or> snd (yoga_slim7x_ec_resume E tr) =
              tr @ [SmbusWrite 0x23 0x00, SmbusWrite 0x23 0x04])
       \<and> (sint r1 < 0 \<longrightarrow>
            yoga_slim7x_ec_resume E tr = (r1, tr @ [SmbusWrite 0x23 0x00]))
       \<and> (r1 = 0 \<and> r2 = 0 \<longrightarrow>
            yoga_slim7x_ec_resume E tr =
              (0, tr @ [SmbusWrite 0x23 0x00, SmbusWrite 0x23 0x04]))"
proof -
  have t1: "tr1 = tr @ [SmbusWrite 0x23 0x00]"
    using assms(1)
    by (auto simp: i2c_smbus_write_byte_data_def EC_SUSPEND_RESUME_REG_def
        EC_NOTIFY_SUSPEND_EXIT_def)
  have t2: "tr2 = tr1 @ [SmbusWrite 0x23 0x04]"
    using assms(2)
    by (auto simp: i2c_smbus_write_byte_data_def EC_SUSPEND_RESUME_REG_def
        EC_NOTIFY_SCREEN_ON_def)
  have run: "yoga_slim7x_ec_resume E tr = (if r1 \<noteq> 0 then (r1, tr1) else (r2, tr2))"
    using assms by (simp add: yoga_slim7x_ec_resume_def)
  have neg: "sint r1 < 0 \<Longrightarrow> r1 \<noteq> 0"
    by auto
  show ?thesis
    using neg by (simp add: run t1 t2)
qed

theorem resume_sequence_witness:
  "yoga_slim7x_ec_resume (env_write_fails 0x00) [] = (- 5, [SmbusWrite 0x23 0x00])
   \<and> yoga_slim7x_ec_resume (env_reason 0) [] =
       (0, [SmbusWrite 0x23 0x00, SmbusWrite 0x23 0x04])"
proof -
  have f1: "i2c_smbus_write_byte_data (env_write_fails 0x00) EC_SUSPEND_RESUME_REG
              EC_NOTIFY_SUSPEND_EXIT [] = (- 5, [SmbusWrite 0x23 0x00])"
    by (simp add: i2c_smbus_write_byte_data_def env_write_fails_def env_const_def
        EC_SUSPEND_RESUME_REG_def EC_NOTIFY_SUSPEND_EXIT_def)
  have f2: "i2c_smbus_write_byte_data (env_write_fails 0x00) EC_SUSPEND_RESUME_REG
              EC_NOTIFY_SCREEN_ON [SmbusWrite 0x23 0x00] =
              (0, [SmbusWrite 0x23 0x00, SmbusWrite 0x23 0x04])"
    by (simp add: i2c_smbus_write_byte_data_def env_write_fails_def env_const_def
        EC_SUSPEND_RESUME_REG_def EC_NOTIFY_SCREEN_ON_def)
  have s1: "i2c_smbus_write_byte_data (env_reason 0) EC_SUSPEND_RESUME_REG
              EC_NOTIFY_SUSPEND_EXIT [] = (0, [SmbusWrite 0x23 0x00])"
    by (simp add: i2c_smbus_write_byte_data_def env_reason_def env_const_def
        EC_SUSPEND_RESUME_REG_def EC_NOTIFY_SUSPEND_EXIT_def)
  have s2: "i2c_smbus_write_byte_data (env_reason 0) EC_SUSPEND_RESUME_REG
              EC_NOTIFY_SCREEN_ON [SmbusWrite 0x23 0x00] =
              (0, [SmbusWrite 0x23 0x00, SmbusWrite 0x23 0x04])"
    by (simp add: i2c_smbus_write_byte_data_def env_reason_def env_const_def
        EC_SUSPEND_RESUME_REG_def EC_NOTIFY_SCREEN_ON_def)
  from resume_sequence [OF f1 f2] resume_sequence [OF s1 s2] show ?thesis
    by simp
qed

section \<open>Probe and remove\<close>

text \<open>
  C7. In probe, the write of 1 to the IRQ-enable register 0x35 is the last step: if a
  call of probe touches the bus at all, then both allocations succeeded, the input device
  was registered and the threaded handler was requested, both without error, and what the
  call added to the trace is the seven steps in the order of the file, ending in that one
  write, followed by nothing or by the log line of the write's own failure. If registering
  the input device fails, or requesting the handler fails, probe returns that error and
  makes no bus access. (Here \<open>ec\<close>, \<open>idev\<close>, \<open>r_input\<close> and \<open>r_irq\<close> name what
  the four calls before the write return.)
\<close>

theorem probe_enables_irq_last:
  assumes "devm_kzalloc E tr = (ec, t1)"
    and "devm_input_allocate_device E (mutex_init t1) = (idev, t3)"
    and "input_register_device E (input_set_capability EV_KEY KEY_MICMUTE t3) = (r_input, t5)"
    and "devm_request_threaded_irq E t5 = (r_irq, t6)"
  shows "(bus_events (emitted tr (snd (yoga_slim7x_ec_probe E tr))) \<noteq> [] \<longrightarrow>
            ec \<and> idev \<and> 0 \<le> sint r_input \<and> 0 \<le> sint r_irq
            \<and> (\<exists>log. emitted tr (snd (yoga_slim7x_ec_probe E tr)) =
                   [DevmKzalloc, MutexInit, DevmInputAllocate,
                    InputSetCapability EV_KEY KEY_MICMUTE, InputRegisterDevice,
                    DevmRequestThreadedIrq, SmbusWrite 0x35 0x01] @ log
                 \<and> (log = [] \<or>
                      log = [DevErrProbe (fst (yoga_slim7x_ec_probe E tr))
                               ''Failed to enable interrupts''])))
       \<and> (ec \<and> idev \<and> sint r_input < 0 \<longrightarrow>
            fst (yoga_slim7x_ec_probe E tr) = r_input
            \<and> bus_events (emitted tr (snd (yoga_slim7x_ec_probe E tr))) = [])
       \<and> (ec \<and> idev \<and> 0 \<le> sint r_input \<and> sint r_irq < 0 \<longrightarrow>
            fst (yoga_slim7x_ec_probe E tr) = r_irq
            \<and> bus_events (emitted tr (snd (yoga_slim7x_ec_probe E tr))) = [])"
proof -
  have t1: "t1 = tr @ [DevmKzalloc]"
    using assms(1) by (auto simp: devm_kzalloc_def)
  have t3: "t3 = tr @ [DevmKzalloc, MutexInit, DevmInputAllocate]"
    using assms(2) by (auto simp: devm_input_allocate_device_def mutex_init_def t1)
  have t5: "t5 = tr @ [DevmKzalloc, MutexInit, DevmInputAllocate,
                       InputSetCapability EV_KEY KEY_MICMUTE, InputRegisterDevice]"
    using assms(3) by (auto simp: input_register_device_def input_set_capability_def t3)
  have t6: "t6 = tr @ [DevmKzalloc, MutexInit, DevmInputAllocate,
                       InputSetCapability EV_KEY KEY_MICMUTE, InputRegisterDevice,
                       DevmRequestThreadedIrq]"
    using assms(4) by (auto simp: devm_request_threaded_irq_def t5)
  obtain r_en t7 where en: "i2c_smbus_write_byte_data E EC_IRQ_ENABLE_REG 0x01 t6 = (r_en, t7)"
    by (cases "i2c_smbus_write_byte_data E EC_IRQ_ENABLE_REG 0x01 t6")
  have t7: "t7 = t6 @ [SmbusWrite 0x35 0x01]"
    using en by (auto simp: i2c_smbus_write_byte_data_def EC_IRQ_ENABLE_REG_def)
  have run: "yoga_slim7x_ec_probe E tr =
      (if \<not> ec then (- ENOMEM, t1)
       else if \<not> idev then (- ENOMEM, t3)
       else if sint r_input < 0 then (r_input, t5 @ [DevErrProbe r_input ''Failed to register input device''])
       else if sint r_irq < 0 then (r_irq, t6 @ [DevErrProbe r_irq ''Unable to request irq''])
       else if sint r_en < 0 then (r_en, t7 @ [DevErrProbe r_en ''Failed to enable interrupts''])
       else (0, t7))"
    using assms en by (simp add: yoga_slim7x_ec_probe_def dev_err_probe_def)
  show ?thesis
    by (simp add: run t1 t3 t5 t6 t7 emitted_def bus_events_def)
qed

theorem probe_enables_irq_last_witness:
  "fst (yoga_slim7x_ec_probe (env_probe (- 22) 0) []) = - 22
   \<and> bus_events (emitted [] (snd (yoga_slim7x_ec_probe (env_probe (- 22) 0) []))) = []
   \<and> fst (yoga_slim7x_ec_probe (env_probe 0 (- 16)) []) = - 16
   \<and> bus_events (emitted [] (snd (yoga_slim7x_ec_probe (env_probe 0 (- 16)) []))) = []
   \<and> yoga_slim7x_ec_probe (env_probe 0 0) [] =
       (0, [DevmKzalloc, MutexInit, DevmInputAllocate, InputSetCapability EV_KEY KEY_MICMUTE,
            InputRegisterDevice, DevmRequestThreadedIrq, SmbusWrite 0x35 0x01])"
proof -
  let ?pre3 = "[DevmKzalloc, MutexInit, DevmInputAllocate]"
  let ?pre5 = "[DevmKzalloc, MutexInit, DevmInputAllocate,
                InputSetCapability EV_KEY KEY_MICMUTE, InputRegisterDevice]"
  let ?pre6 = "[DevmKzalloc, MutexInit, DevmInputAllocate,
                InputSetCapability EV_KEY KEY_MICMUTE, InputRegisterDevice,
                DevmRequestThreadedIrq]"
  have a: "devm_kzalloc (env_probe ir rq) [] = (True, [DevmKzalloc])" for ir rq
    by (simp add: devm_kzalloc_def env_probe_def env_const_def)
  have b: "devm_input_allocate_device (env_probe ir rq) (mutex_init [DevmKzalloc]) =
             (True, ?pre3)" for ir rq
    by (simp add: devm_input_allocate_device_def mutex_init_def env_probe_def env_const_def)
  have c: "input_register_device (env_probe ir rq)
             (input_set_capability EV_KEY KEY_MICMUTE ?pre3) = (ir, ?pre5)" for ir rq
    by (simp add: input_register_device_def input_set_capability_def env_probe_def
        env_const_def)
  have d: "devm_request_threaded_irq (env_probe ir rq) ?pre5 = (rq, ?pre6)" for ir rq
    by (simp add: devm_request_threaded_irq_def env_probe_def env_const_def)
  have ok: "yoga_slim7x_ec_probe (env_probe 0 0) [] = (0, ?pre6 @ [SmbusWrite 0x35 0x01])"
    by (simp add: yoga_slim7x_ec_probe_def call_defs env_probe_def env_const_def
        EC_IRQ_ENABLE_REG_def)
  have bus: "bus_events (emitted [] (snd (yoga_slim7x_ec_probe (env_probe 0 0) []))) \<noteq> []"
    by (simp add: ok emitted_def bus_events_def)
  from probe_enables_irq_last [OF a b c d, of "- 22" 0]
    probe_enables_irq_last [OF a b c d, of 0 "- 16"]
    probe_enables_irq_last [OF a b c d, of 0 0] bus
  show ?thesis
    by (simp add: ok)
qed

text \<open>
  C8. Remove attempts exactly one bus access, the write of 0x00 to the IRQ-enable register
  0x35. If the write fails, the error is logged with \<^verbatim>\<open>dev_err\<close> and nothing more
  happens: remove has no return value to carry it, and it ends in either case.
\<close>

theorem remove_disables_irq_once:
  "yoga_slim7x_ec_remove E tr =
     tr @ SmbusWrite 0x35 0x00 #
       (if sint (bus_write E tr EC_IRQ_ENABLE_REG 0x00) < 0
        then [DevErr ''Failed to disable interrupts: %d'' (bus_write E tr EC_IRQ_ENABLE_REG 0x00)]
        else [])
   \<and> bus_events (emitted tr (yoga_slim7x_ec_remove E tr)) = [SmbusWrite 0x35 0x00]"
  by (simp add: yoga_slim7x_ec_remove_def call_defs emitted_def bus_events_def
      EC_IRQ_ENABLE_REG_def)

section \<open>The register table\<close>

text \<open>
  C9. The addresses and bytes are those of the table, and they are the ones the driver
  puts on the bus. The reason register is 0x05: the handler's bus traffic is one read of
  it. The suspend/resume register is 0x23, with ScreenOff 0x03, SuspendEnter 0x01,
  SuspendExit 0x00 and ScreenOn 0x04: suspend always writes 0x03 to 0x23 and, when that
  write returns 0, then writes 0x01 to 0x23; resume always writes 0x00 to 0x23 and, when
  that write returns 0, then writes 0x04 to 0x23; neither makes another bus access. The
  IRQ-enable register is 0x35: remove writes 0x00 to it, and probe writes 0x01 to it
  exactly when its four earlier calls succeed, and nothing otherwise. The micmute code is
  0x04 and it is the only reason code with an action: the handler emits input events
  exactly when the read of the reason register returns it.
\<close>

theorem register_table:
  "EC_IRQ_REASON_REG = 0x05 \<and> EC_SUSPEND_RESUME_REG = 0x23 \<and> EC_IRQ_ENABLE_REG = 0x35
   \<and> EC_NOTIFY_SUSPEND_ENTER = 0x01 \<and> EC_NOTIFY_SUSPEND_EXIT = 0x00
   \<and> EC_NOTIFY_SCREEN_OFF = 0x03 \<and> EC_NOTIFY_SCREEN_ON = 0x04
   \<and> EC_IRQ_MICMUTE_BUTTON = 0x04
   \<and> bus_events (emitted tr (snd (yoga_slim7x_ec_irq E tr))) = [SmbusRead 0x05]
   \<and> bus_events (emitted tr (snd (yoga_slim7x_ec_suspend E tr))) =
        SmbusWrite 0x23 0x03 #
          (if bus_write E tr 0x23 0x03 = 0 then [SmbusWrite 0x23 0x01] else [])
   \<and> bus_events (emitted tr (snd (yoga_slim7x_ec_resume E tr))) =
        SmbusWrite 0x23 0x00 #
          (if bus_write E tr 0x23 0x00 = 0 then [SmbusWrite 0x23 0x04] else [])
   \<and> bus_events (emitted tr (yoga_slim7x_ec_remove E tr)) = [SmbusWrite 0x35 0x00]
   \<and> bus_events (emitted tr (snd (yoga_slim7x_ec_probe E tr))) =
        (if kzalloc_ok E tr
            \<and> input_allocate_ok E (tr @ [DevmKzalloc, MutexInit])
            \<and> 0 \<le> sint (input_register_ret E
                  (tr @ [DevmKzalloc, MutexInit, DevmInputAllocate,
                         InputSetCapability EV_KEY KEY_MICMUTE]))
            \<and> 0 \<le> sint (request_irq_ret E
                  (tr @ [DevmKzalloc, MutexInit, DevmInputAllocate,
                         InputSetCapability EV_KEY KEY_MICMUTE, InputRegisterDevice]))
         then [SmbusWrite 0x35 0x01] else [])
   \<and> (input_events (emitted tr (snd (yoga_slim7x_ec_irq E tr))) \<noteq> [])
        = (irq_reason E tr = 0x04)"
proof -
  have tbl: "EC_IRQ_REASON_REG = 0x05" "EC_SUSPEND_RESUME_REG = 0x23"
    "EC_IRQ_ENABLE_REG = 0x35" "EC_NOTIFY_SUSPEND_ENTER = 0x01"
    "EC_NOTIFY_SUSPEND_EXIT = 0x00" "EC_NOTIFY_SCREEN_OFF = 0x03"
    "EC_NOTIFY_SCREEN_ON = 0x04" "EC_IRQ_MICMUTE_BUTTON = 0x04"
    by (simp_all add: EC_IRQ_REASON_REG_def EC_SUSPEND_RESUME_REG_def EC_IRQ_ENABLE_REG_def
        EC_NOTIFY_SUSPEND_ENTER_def EC_NOTIFY_SUSPEND_EXIT_def EC_NOTIFY_SCREEN_OFF_def
        EC_NOTIFY_SCREEN_ON_def EC_IRQ_MICMUTE_BUTTON_def)
  have irq: "bus_events (emitted tr (snd (yoga_slim7x_ec_irq E tr))) = [SmbusRead 0x05]"
    by (simp add: yoga_slim7x_ec_irq_def call_defs emitted_def bus_events_def tbl Let_def)
  have susp: "bus_events (emitted tr (snd (yoga_slim7x_ec_suspend E tr))) =
        SmbusWrite 0x23 0x03 #
          (if bus_write E tr 0x23 0x03 = 0 then [SmbusWrite 0x23 0x01] else [])"
    by (simp add: yoga_slim7x_ec_suspend_def i2c_smbus_write_byte_data_def emitted_def
        bus_events_def tbl)
  have res: "bus_events (emitted tr (snd (yoga_slim7x_ec_resume E tr))) =
        SmbusWrite 0x23 0x00 #
          (if bus_write E tr 0x23 0x00 = 0 then [SmbusWrite 0x23 0x04] else [])"
    by (simp add: yoga_slim7x_ec_resume_def i2c_smbus_write_byte_data_def emitted_def
        bus_events_def tbl)
  have rem: "bus_events (emitted tr (yoga_slim7x_ec_remove E tr)) = [SmbusWrite 0x35 0x00]"
    by (simp add: yoga_slim7x_ec_remove_def call_defs emitted_def bus_events_def tbl)
  have prb: "bus_events (emitted tr (snd (yoga_slim7x_ec_probe E tr))) =
        (if kzalloc_ok E tr
            \<and> input_allocate_ok E (tr @ [DevmKzalloc, MutexInit])
            \<and> 0 \<le> sint (input_register_ret E
                  (tr @ [DevmKzalloc, MutexInit, DevmInputAllocate,
                         InputSetCapability EV_KEY KEY_MICMUTE]))
            \<and> 0 \<le> sint (request_irq_ret E
                  (tr @ [DevmKzalloc, MutexInit, DevmInputAllocate,
                         InputSetCapability EV_KEY KEY_MICMUTE, InputRegisterDevice]))
         then [SmbusWrite 0x35 0x01] else [])"
    by (simp add: yoga_slim7x_ec_probe_def call_defs emitted_def bus_events_def tbl Let_def
        not_less)
  have act: "(input_events (emitted tr (snd (yoga_slim7x_ec_irq E tr))) \<noteq> [])
        = (irq_reason E tr = 0x04)"
    by (simp add: yoga_slim7x_ec_irq_def call_defs emitted_def input_events_def
        irq_reason_def tbl Let_def)
  show ?thesis
    using tbl irq susp res rem prb act by simp
qed

text \<open>On a bus that accepts every transfer, with every call of probe succeeding, each
  operation makes exactly the accesses of the table.\<close>

theorem register_table_witness:
  "bus_events (snd (yoga_slim7x_ec_irq (env_reason 0x04) [])) = [SmbusRead 0x05]
   \<and> bus_events (snd (yoga_slim7x_ec_suspend (env_reason 0x04) [])) =
       [SmbusWrite 0x23 0x03, SmbusWrite 0x23 0x01]
   \<and> bus_events (snd (yoga_slim7x_ec_resume (env_reason 0x04) [])) =
       [SmbusWrite 0x23 0x00, SmbusWrite 0x23 0x04]
   \<and> bus_events (yoga_slim7x_ec_remove (env_reason 0x04) []) = [SmbusWrite 0x35 0x00]
   \<and> bus_events (snd (yoga_slim7x_ec_probe (env_reason 0x04) [])) = [SmbusWrite 0x35 0x01]
   \<and> input_events (snd (yoga_slim7x_ec_irq (env_reason 0x04) [])) \<noteq> []
   \<and> input_events (snd (yoga_slim7x_ec_irq (env_reason 0x36) [])) = []"
proof -
  have r4: "irq_reason (env_reason 0x04) [] = 0x04"
    by (simp add: irq_reason_def env_reason_def env_const_def)
  have r36: "irq_reason (env_reason 0x36) [] \<noteq> 0x04"
    by (simp add: irq_reason_def env_reason_def env_const_def)
  have acc: "bus_write (env_reason 0x04) [] a v = 0"
    "kzalloc_ok (env_reason 0x04) t" "input_allocate_ok (env_reason 0x04) t"
    "input_register_ret (env_reason 0x04) t = 0" "request_irq_ret (env_reason 0x04) t = 0"
    for a v t
    by (simp_all add: env_reason_def env_const_def)
  note t4 = register_table [where tr = "[]" and E = "env_reason 0x04", THEN conjunct2,
      THEN conjunct2, THEN conjunct2, THEN conjunct2, THEN conjunct2, THEN conjunct2,
      THEN conjunct2, THEN conjunct2]
  note t36 = register_table [where tr = "[]" and E = "env_reason 0x36", THEN conjunct2,
      THEN conjunct2, THEN conjunct2, THEN conjunct2, THEN conjunct2, THEN conjunct2,
      THEN conjunct2, THEN conjunct2]
  from t4 t36
  show ?thesis
    using r4 r36 by (simp add: emitted_def acc)
qed

section \<open>The mutex\<close>

text \<open>The handler makes its one bus access between taking and releasing the mutex;
  suspend and resume take no mutex at all, so each of their writes is made without it.\<close>

lemma irq_read_locked:
  "locked_accesses False (emitted tr (snd (yoga_slim7x_ec_irq E tr)))"
  by (simp add: yoga_slim7x_ec_irq_def call_defs emitted_def Let_def)

lemma suspend_not_locked:
  "\<not> locked_accesses False (emitted tr (snd (yoga_slim7x_ec_suspend E tr)))"
  by (simp add: yoga_slim7x_ec_suspend_def i2c_smbus_write_byte_data_def emitted_def)

lemma resume_not_locked:
  "\<not> locked_accesses False (emitted tr (snd (yoga_slim7x_ec_resume E tr)))"
  by (simp add: yoga_slim7x_ec_resume_def i2c_smbus_write_byte_data_def emitted_def)

text \<open>
  C2. The claim is that suspend and resume make their register writes only while holding
  the mutex the interrupt handler holds. On a bus that accepts every write, the handler
  does read under the mutex, but suspend makes both of its writes, and resume both of its
  writes, with no lock event anywhere in the trace.
\<close>

theorem power_writes_outside_lock:
  "locked_accesses False (emitted [] (snd (yoga_slim7x_ec_irq (env_reason 0x04) [])))
   \<and> yoga_slim7x_ec_suspend (env_reason 0x04) [] =
       (0, [SmbusWrite 0x23 0x03, SmbusWrite 0x23 0x01])
   \<and> \<not> locked_accesses False (emitted [] (snd (yoga_slim7x_ec_suspend (env_reason 0x04) [])))
   \<and> yoga_slim7x_ec_resume (env_reason 0x04) [] =
       (0, [SmbusWrite 0x23 0x00, SmbusWrite 0x23 0x04])
   \<and> \<not> locked_accesses False (emitted [] (snd (yoga_slim7x_ec_resume (env_reason 0x04) [])))"
proof -
  have s: "yoga_slim7x_ec_suspend (env_reason 0x04) [] =
       (0, [SmbusWrite 0x23 0x03, SmbusWrite 0x23 0x01])"
    by (simp add: yoga_slim7x_ec_suspend_def i2c_smbus_write_byte_data_def env_reason_def
        env_const_def EC_SUSPEND_RESUME_REG_def EC_NOTIFY_SCREEN_OFF_def
        EC_NOTIFY_SUSPEND_ENTER_def)
  have r: "yoga_slim7x_ec_resume (env_reason 0x04) [] =
       (0, [SmbusWrite 0x23 0x00, SmbusWrite 0x23 0x04])"
    by (simp add: yoga_slim7x_ec_resume_def i2c_smbus_write_byte_data_def env_reason_def
        env_const_def EC_SUSPEND_RESUME_REG_def EC_NOTIFY_SUSPEND_EXIT_def
        EC_NOTIFY_SCREEN_ON_def)
  show ?thesis
    using irq_read_locked [of "[]" "env_reason 0x04"]
      suspend_not_locked [of "[]" "env_reason 0x04"]
      resume_not_locked [of "[]" "env_reason 0x04"]
    by (simp add: s r)
qed

end
